theory Spec2Isabelle
  imports Main "HOL-Library.List_Lexorder" "HOL-Library.Char_ord"
begin

section \<open>Values shared by the services\<close>

text \<open>
  Progress events are Python dicts with string keys that are written to JSON unchanged.
  A dict keeps insertion order, so it is an association list; \<open>map_of\<close> is
  \<^verbatim>\<open>dict.get\<close>. Floats do not occur in the fields the development reads.
\<close>

datatype jval =
    JNull
  | JBool bool
  | JInt int
  | JStr string
  | JList "jval list"
  | JDict "(string \<times> jval) list"

type_synonym event = "(string \<times> jval) list"

text \<open>
  \<^verbatim>\<open>{**base, **kwargs}\<close>: every key of \<open>kwargs\<close> is stored in turn; a key that is
  already present keeps its position and takes the new value, a new key goes to the end.
\<close>

fun dict_set :: "string \<Rightarrow> jval \<Rightarrow> event \<Rightarrow> event" where
  "dict_set k v [] = [(k, v)]"
| "dict_set k v (p # ps) = (if fst p = k then (k, v) # ps else p # dict_set k v ps)"

definition dict_merge :: "event \<Rightarrow> event \<Rightarrow> event" where
  "dict_merge base kwargs = foldl (\<lambda>d (k, v). dict_set k v d) base kwargs"

text \<open>Exceptions that the modelled code raises or catches; \<open>str_of\<close> is \<^verbatim>\<open>str(e)\<close>.\<close>

datatype py_error = ValueError string | Exception string

fun str_of :: "py_error \<Rightarrow> string" where
  "str_of (ValueError m) = m"
| "str_of (Exception m) = m"

section \<open>session\_service.py\<close>

subsection \<open>ChatSession\<close>

text \<open>
  A message is the dict built by \<^verbatim>\<open>add_message\<close>: role, content, timestamp and, when
  given, run\_id. The code tests whether the timestamp is a \<^verbatim>\<open>datetime\<close> or a
  \<^verbatim>\<open>str\<close>; both cases are kept. The type \<open>'dt\<close> stands for Python's
  \<^verbatim>\<open>datetime\<close>.
\<close>

datatype 'dt tstamp = Datetime 'dt | Iso string

record 'dt message =
  role :: string
  content :: string
  timestamp :: "'dt tstamp"
  run_id :: "string option"

text \<open>
  The live RLM instance attached to a session. Only \<^verbatim>\<open>close()\<close> is called on it by
  the code modelled here; \<open>close_raises\<close> says whether that call raises.
\<close>

record rlm_handle =
  handle_id :: nat
  close_raises :: bool

record 'dt ChatSession =
  session_id :: string
  model_id :: string
  document_ids :: "string list"
  title :: "string option"
  status :: string
  created_at :: 'dt
  ended_at :: "'dt option"
  messages :: "'dt message list"
  progress_events :: "string \<rightharpoonup> event list"
  rlm_instance :: "rlm_handle option"

text \<open>
  \<^verbatim>\<open>ChatSession.__init__\<close>. The keyword arguments that default to \<^verbatim>\<open>None\<close> are
  options; \<open>now\<close> is the value of \<^verbatim>\<open>datetime.utcnow()\<close>. A \<^verbatim>\<open>datetime\<close> is always
  truthy, an empty list or dict is falsy.
\<close>

definition ChatSession_init ::
  "string \<Rightarrow> string \<Rightarrow> string list \<Rightarrow> string option \<Rightarrow> string \<Rightarrow> 'dt option \<Rightarrow> 'dt option
    \<Rightarrow> 'dt message list option \<Rightarrow> (string \<rightharpoonup> event list) option \<Rightarrow> 'dt \<Rightarrow> 'dt ChatSession" where
  "ChatSession_init sid mid docs ttl st created ended msgs pe now =
     \<lparr> session_id = sid,
       model_id = mid,
       document_ids = docs,
       title = ttl,
       status = st,
       created_at = (case created of Some c \<Rightarrow> c | None \<Rightarrow> now),
       ended_at = ended,
       messages = (case msgs of Some ms \<Rightarrow> ms | None \<Rightarrow> []),
       progress_events = (case pe of Some p \<Rightarrow> p | None \<Rightarrow> Map.empty),
       rlm_instance = None \<rparr>"

subsection \<open>RunState\<close>

record 'dt RunState =
  run_id :: string
  session_id :: string
  message :: string
  started_at :: 'dt
  completed :: bool
  error :: "string option"
  result :: "string option"
  events :: "event list"

definition RunState_init :: "string \<Rightarrow> string \<Rightarrow> string \<Rightarrow> 'dt \<Rightarrow> 'dt RunState" where
  "RunState_init rid sid msg now =
     \<lparr> run_id = rid, session_id = sid, message = msg, started_at = now,
       completed = False, error = None, result = None, events = [] \<rparr>"

definition add_event :: "'dt RunState \<Rightarrow> event \<Rightarrow> 'dt RunState" where
  "add_event run ev = run\<lparr>events := events run @ [ev]\<rparr>"

text \<open>
  \<^verbatim>\<open>xs[start:]\<close>: a negative start counts from the end of the list and is clipped
  at its beginning.
\<close>

definition slice_from :: "'a list \<Rightarrow> int \<Rightarrow> 'a list" where
  "slice_from xs start =
     (if start < 0 then drop (nat (int (length xs) + start)) xs else drop (nat start) xs)"

definition get_events :: "'dt RunState \<Rightarrow> int \<Rightarrow> event list" where
  "get_events run start_index = slice_from (events run) start_index"


subsection \<open>SessionService\<close>

text \<open>
  The two registries, the files of \<^verbatim>\<open>SESSIONS_DIR\<close> (one JSON document per session id,
  see \<open>persisted\<close> below) and the handles on which \<^verbatim>\<open>close()\<close> has been called.
\<close>

record 'dt persisted =
  p_session_id :: string
  p_model_id :: string
  p_document_ids :: "string list"
  p_title :: "string option"
  p_status :: "string option"
  p_created_at :: "'dt tstamp"
  p_ended_at :: "string option"
  p_messages :: "'dt message list option"
  p_progress_events :: "(string \<rightharpoonup> event list) option"

record 'dt SessionService =
  sessions :: "string \<rightharpoonup> 'dt ChatSession"
  runs :: "string \<rightharpoonup> 'dt RunState"
  files :: "string \<rightharpoonup> 'dt persisted"
  closed :: "nat list"

definition get_run :: "'dt SessionService \<Rightarrow> string \<Rightarrow> 'dt RunState option" where
  "get_run svc rid = runs svc rid"

text \<open>\<^verbatim>\<open>create_run\<close>; the fresh \<^verbatim>\<open>uuid4\<close> is the argument \<open>rid\<close>.\<close>

definition create_run ::
  "'dt SessionService \<Rightarrow> string \<Rightarrow> string \<Rightarrow> string \<Rightarrow> 'dt \<Rightarrow> 'dt RunState \<times> 'dt SessionService" where
  "create_run svc rid sid msg now =
     (let run = RunState_init rid sid msg now
      in (run, svc\<lparr>runs := (runs svc)(rid \<mapsto> run)\<rparr>))"

definition complete_run ::
  "'dt SessionService \<Rightarrow> string \<Rightarrow> string option \<Rightarrow> string option \<Rightarrow> 'dt SessionService" where
  "complete_run svc rid res err =
     (case runs svc rid of
        None \<Rightarrow> svc
      | Some run \<Rightarrow>
          svc\<lparr>runs := (runs svc)(rid \<mapsto> run\<lparr>completed := True, result := res, error := err\<rparr>)\<rparr>)"

section \<open>session\_service.py, continued\<close>

subsection \<open>Titles and messages\<close>

text \<open>
  Python strings are lists of characters here. \<^verbatim>\<open>str.isspace\<close> on the code points
  below 256: tab to carriage return, the four separators 28 to 31, the space, NEL (133) and
  the no-break space (160). \<^verbatim>\<open>str.strip()\<close> removes such characters at both ends.
\<close>

definition isspace :: "char \<Rightarrow> bool" where
  "isspace c =
     (let n = (of_char c :: nat)
      in (9 \<le> n \<and> n \<le> 13) \<or> (28 \<le> n \<and> n \<le> 32) \<or> n = 133 \<or> n = 160)"

definition strip :: "string \<Rightarrow> string" where
  "strip s = rev (dropWhile isspace (rev (dropWhile isspace s)))"

text \<open>
  \<^verbatim>\<open>s.rsplit(" ", 1)[0]\<close>: what stands before the last space of \<open>s\<close>, and \<open>s\<close> itself
  when it has no space.
\<close>

definition rsplit_head :: "string \<Rightarrow> string" where
  "rsplit_head s =
     (if CHR '' '' \<in> set s then rev (tl (dropWhile (\<lambda>c. c \<noteq> CHR '' '') (rev s))) else s)"

definition generate_title :: "string \<Rightarrow> string" where
  "generate_title c =
     (let t = strip c
      in if length t > 50
         then (let t1 = rsplit_head (take 50 t);
                   t2 = (if length t1 < 20 then take 50 c else t1)
               in t2 @ ''...'')
         else t)"

text \<open>
  \<^verbatim>\<open>add_message\<close> returns the message and mutates the session; the model returns both.
  \<^verbatim>\<open>if run_id:\<close> is false for \<^verbatim>\<open>None\<close> and for the empty string.
\<close>

definition add_message ::
  "'dt ChatSession \<Rightarrow> string \<Rightarrow> string \<Rightarrow> string option \<Rightarrow> 'dt \<Rightarrow> 'dt message \<times> 'dt ChatSession" where
  "add_message s r c rid now =
     (let msg = \<lparr> role = r, content = c, timestamp = Datetime now,
                   run_id = (case rid of Some i \<Rightarrow> (if i \<noteq> [] then Some i else None) | None \<Rightarrow> None) \<rparr>;
          s1 = s\<lparr>messages := messages s @ [msg]\<rparr>;
          s2 = (if title s1 = None \<and> r = ''user'' then s1\<lparr>title := Some (generate_title c)\<rparr> else s1)
      in (msg, s2))"

definition add_progress_events :: "'dt ChatSession \<Rightarrow> string \<Rightarrow> event list \<Rightarrow> 'dt ChatSession" where
  "add_progress_events s rid evs = s\<lparr>progress_events := (progress_events s)(rid \<mapsto> evs)\<rparr>"

definition get_progress_events :: "'dt ChatSession \<Rightarrow> string \<Rightarrow> event list" where
  "get_progress_events s rid = (case progress_events s rid of Some evs \<Rightarrow> evs | None \<Rightarrow> [])"

subsection \<open>Persistence\<close>

text \<open>
  \<^verbatim>\<open>datetime.isoformat\<close> and \<^verbatim>\<open>datetime.fromisoformat\<close> belong to the Python standard
  library, not to the repository: they are the parameters \<open>isoformat\<close> and
  \<open>fromisoformat\<close>, the second returning \<open>None\<close> where Python raises
  \<^verbatim>\<open>ValueError\<close>.

  The record \<open>persisted\<close> is the dict that \<^verbatim>\<open>to_persist_dict\<close> returns and that
  \<^verbatim>\<open>from_persist_dict\<close> reads: a key read with \<^verbatim>\<open>data.get\<close> is an option (\<open>None\<close>
  for an absent key; for \<^verbatim>\<open>title\<close> and \<^verbatim>\<open>ended_at\<close> also for JSON \<^verbatim>\<open>null\<close>), a key read
  with \<^verbatim>\<open>data[...]\<close> is there.
\<close>

definition to_persist_dict :: "('dt \<Rightarrow> string) \<Rightarrow> 'dt ChatSession \<Rightarrow> 'dt persisted" where
  "to_persist_dict isoformat s =
     \<lparr> p_session_id = ChatSession.session_id s,
       p_model_id = model_id s,
       p_document_ids = document_ids s,
       p_title = title s,
       p_status = Some (status s),
       p_created_at = Iso (isoformat (created_at s)),
       p_ended_at = (case ended_at s of Some e \<Rightarrow> Some (isoformat e) | None \<Rightarrow> None),
       p_messages = Some (map (\<lambda>msg. msg\<lparr>timestamp :=
                        (case timestamp msg of Datetime d \<Rightarrow> Iso (isoformat d) | Iso t \<Rightarrow> Iso t)\<rparr>)
                      (messages s)),
       p_progress_events = Some (progress_events s) \<rparr>"

definition from_iso :: "(string \<Rightarrow> 'dt option) \<Rightarrow> string \<Rightarrow> py_error + 'dt" where
  "from_iso fromisoformat t =
     (case fromisoformat t of
        Some d \<Rightarrow> Inr d
      | None \<Rightarrow> Inl (ValueError (''Invalid isoformat string: '' @ t)))"

text \<open>The list comprehension over the stored messages; the first parse error ends it.\<close>

fun load_messages :: "(string \<Rightarrow> 'dt option) \<Rightarrow> 'dt message list \<Rightarrow> py_error + 'dt message list" where
  "load_messages fromisoformat [] = Inr []"
| "load_messages fromisoformat (msg # rest) =
     (case (case timestamp msg of
              Iso t \<Rightarrow> (case from_iso fromisoformat t of Inl e \<Rightarrow> Inl e | Inr d \<Rightarrow> Inr (Datetime d))
            | Datetime d \<Rightarrow> Inr (Datetime d)) of
        Inl e \<Rightarrow> Inl e
      | Inr ts \<Rightarrow>
          (case load_messages fromisoformat rest of
             Inl e \<Rightarrow> Inl e
           | Inr loaded \<Rightarrow> Inr (msg\<lparr>timestamp := ts\<rparr> # loaded)))"

definition from_persist_dict ::
  "(string \<Rightarrow> 'dt option) \<Rightarrow> 'dt \<Rightarrow> 'dt persisted \<Rightarrow> py_error + 'dt ChatSession" where
  "from_persist_dict fromisoformat now data =
     (case load_messages fromisoformat (case p_messages data of Some ms \<Rightarrow> ms | None \<Rightarrow> []) of
        Inl e \<Rightarrow> Inl e
      | Inr msgs \<Rightarrow>
          (case (case p_created_at data of
                   Iso t \<Rightarrow> from_iso fromisoformat t
                 | Datetime d \<Rightarrow> Inr d) of
             Inl e \<Rightarrow> Inl e
           | Inr created \<Rightarrow>
               (case (case p_ended_at data of
                        Some t \<Rightarrow>
                          (if t \<noteq> []
                           then (case from_iso fromisoformat t of Inl e \<Rightarrow> Inl e | Inr d \<Rightarrow> Inr (Some d))
                           else Inr None)
                      | None \<Rightarrow> Inr None) of
                  Inl e \<Rightarrow> Inl e
                | Inr ended \<Rightarrow>
                    Inr (ChatSession_init (p_session_id data) (p_model_id data) (p_document_ids data)
                          (p_title data)
                          (case p_status data of Some st \<Rightarrow> st | None \<Rightarrow> ''ended'')
                          (Some created) ended (Some msgs)
                          (Some (case p_progress_events data of Some pe \<Rightarrow> pe | None \<Rightarrow> Map.empty))
                          now))))"

definition persist_session :: "('dt \<Rightarrow> string) \<Rightarrow> 'dt SessionService \<Rightarrow> 'dt ChatSession \<Rightarrow> 'dt SessionService" where
  "persist_session isoformat svc s =
     svc\<lparr>files := (files svc)(ChatSession.session_id s \<mapsto> to_persist_dict isoformat s)\<rparr>"

definition delete_persisted_session :: "'dt SessionService \<Rightarrow> string \<Rightarrow> 'dt SessionService" where
  "delete_persisted_session svc sid = svc\<lparr>files := (files svc)(sid := None)\<rparr>"

subsection \<open>Session lifecycle\<close>

text \<open>\<^verbatim>\<open>create_session\<close>; the fresh \<^verbatim>\<open>uuid4\<close> is the argument \<open>sid\<close>.\<close>

definition create_session ::
  "('dt \<Rightarrow> string) \<Rightarrow> 'dt SessionService \<Rightarrow> string \<Rightarrow> string \<Rightarrow> string list \<Rightarrow> 'dt
    \<Rightarrow> 'dt ChatSession \<times> 'dt SessionService" where
  "create_session isoformat svc sid mid docs now =
     (let s = ChatSession_init sid mid docs None ''active'' None None None None now
      in (s, persist_session isoformat (svc\<lparr>sessions := (sessions svc)(sid \<mapsto> s)\<rparr>) s))"

definition get_session :: "'dt SessionService \<Rightarrow> string \<Rightarrow> 'dt ChatSession option" where
  "get_session svc sid = sessions svc sid"

text \<open>
  \<^verbatim>\<open>try: session.rlm_instance.close() except Exception: pass\<close>. The call is recorded in
  \<open>closed\<close>; whether it raised makes no difference to what follows.
\<close>

definition rlm_close :: "rlm_handle \<Rightarrow> py_error + unit" where
  "rlm_close h = (if close_raises h then Inl (Exception ''close failed'') else Inr ())"

definition try_close :: "'dt SessionService \<Rightarrow> rlm_handle \<Rightarrow> 'dt SessionService" where
  "try_close svc h =
     (case rlm_close h of
        Inl e \<Rightarrow> svc\<lparr>closed := closed svc @ [handle_id h]\<rparr>
      | Inr u \<Rightarrow> svc\<lparr>closed := closed svc @ [handle_id h]\<rparr>)"

text \<open>
  \<^verbatim>\<open>end_session\<close>. The session object is mutated in place, so the registry entry changes
  with it; \<open>now\<close> is \<^verbatim>\<open>datetime.utcnow()\<close>.
\<close>

definition end_session ::
  "('dt \<Rightarrow> string) \<Rightarrow> 'dt SessionService \<Rightarrow> string \<Rightarrow> 'dt \<Rightarrow> bool \<times> 'dt SessionService" where
  "end_session isoformat svc sid now =
     (case sessions svc sid of
        None \<Rightarrow> (False, svc)
      | Some session \<Rightarrow>
          (let svc1 = (case rlm_instance session of Some h \<Rightarrow> try_close svc h | None \<Rightarrow> svc);
               session1 = (case rlm_instance session of
                             Some h \<Rightarrow> session\<lparr>rlm_instance := None\<rparr>
                           | None \<Rightarrow> session)
           in if length (messages session1) = 0
              then (True, delete_persisted_session (svc1\<lparr>sessions := (sessions svc1)(sid := None)\<rparr>) sid)
              else (let session2 = session1\<lparr>status := ''ended'', ended_at := Some now\<rparr>
                    in (True, persist_session isoformat
                                (svc1\<lparr>sessions := (sessions svc1)(sid \<mapsto> session2)\<rparr>) session2))))"

definition save_session :: "('dt \<Rightarrow> string) \<Rightarrow> 'dt SessionService \<Rightarrow> string \<Rightarrow> 'dt SessionService" where
  "save_session isoformat svc sid =
     (case sessions svc sid of Some s \<Rightarrow> persist_session isoformat svc s | None \<Rightarrow> svc)"

section \<open>rlm\_service.py\<close>

definition cancel_run :: "'dt SessionService \<Rightarrow> string \<Rightarrow> bool \<times> 'dt SessionService" where
  "cancel_run svc rid =
     (case get_run svc rid of
        Some run \<Rightarrow>
          (if \<not> completed run then (True, complete_run svc rid None (Some ''Cancelled by user''))
           else (False, svc))
      | None \<Rightarrow> (False, svc))"

section \<open>progress\_emitter.py\<close>

text \<open>
  \<^verbatim>\<open>_make_event\<close> of both \<^verbatim>\<open>WebProgressLogger\<close> and \<^verbatim>\<open>WebProgressPrinter\<close>: the four
  common fields, then the keyword arguments; \<open>isoformat now\<close> is
  \<^verbatim>\<open>datetime.utcnow().isoformat()\<close>.
\<close>

definition make_event :: "('dt \<Rightarrow> string) \<Rightarrow> 'dt \<Rightarrow> string \<Rightarrow> string \<Rightarrow> string \<Rightarrow> event \<Rightarrow> event" where
  "make_event isoformat now event_type sid rid kwargs =
     dict_merge [(''type'', JStr event_type), (''timestamp'', JStr (isoformat now)),
                 (''session_id'', JStr sid), (''run_id'', JStr rid)] kwargs"

text \<open>The timestamp an event carries (the empty string when it has none).\<close>

definition timestamp_of :: "event \<Rightarrow> string" where
  "timestamp_of ev = (case map_of ev ''timestamp'' of Some (JStr t) \<Rightarrow> t | _ \<Rightarrow> [])"

section \<open>config.py\<close>

record Settings =
  anthropic_api_key :: string
  openai_api_key :: string
  anthropic_base_url :: "string option"
  anthropic_auth_token :: "string option"

text \<open>\<^verbatim>\<open>bool(x)\<close> of an optional string: false for \<^verbatim>\<open>None\<close> and for the empty string.\<close>

definition truthy :: "string option \<Rightarrow> bool" where
  "truthy x = (case x of Some s \<Rightarrow> s \<noteq> [] | None \<Rightarrow> False)"

definition validate_api_key :: "Settings \<Rightarrow> string \<Rightarrow> bool" where
  "validate_api_key settings provider =
     (if provider = ''openai''
      then openai_api_key settings \<noteq> [] \<and> openai_api_key settings \<noteq> ''your-api-key-here''
      else (let has_direct_key = (anthropic_api_key settings \<noteq> [] \<and>
                                    anthropic_api_key settings \<noteq> ''your-api-key-here'');
                has_proxy_config = (truthy (anthropic_base_url settings) \<and>
                                    truthy (anthropic_auth_token settings))
            in has_direct_key \<or> has_proxy_config))"

text \<open>The ids and providers of \<^verbatim>\<open>AVAILABLE_MODELS\<close> (names and descriptions are not read).\<close>

definition AVAILABLE_MODELS :: "(string \<times> string) list" where
  "AVAILABLE_MODELS =
     [(''claude-sonnet-4-5-20250929'', ''anthropic''),
      (''claude-opus-4-5-20251101'', ''anthropic''),
      (''gpt-5.2-2025-12-11'', ''openai''),
      (''gpt-5-mini'', ''openai''),
      (''gpt-5-nano-2025-08-07'', ''openai'')]"

definition get_model_provider :: "string \<Rightarrow> string" where
  "get_model_provider mid =
     (case map_of AVAILABLE_MODELS mid of Some provider \<Rightarrow> provider | None \<Rightarrow> ''anthropic'')"

section \<open>rlm\_service.py, continued\<close>

text \<open>
  The service holds its threads by run id; the global \<^verbatim>\<open>session_service\<close> is the field
  \<open>service\<close>. A thread is described by what its closure captured.
\<close>

record thread =
  target_session :: string
  target_run :: string
  target_message :: string
  daemon :: bool

record 'dt RLMService =
  service :: "'dt SessionService"
  active_threads :: "string \<rightharpoonup> thread"

text \<open>
  The closure \<^verbatim>\<open>emit_event\<close> of \<^verbatim>\<open>run_inference\<close>, bound to one run: it hands the event
  to \<^verbatim>\<open>add_event\<close> as it is.
\<close>

definition emit_event :: "'dt RunState \<Rightarrow> event \<Rightarrow> 'dt RunState" where
  "emit_event run ev = add_event run ev"

text \<open>
  A run object lives in the registry under its id from \<^verbatim>\<open>create_run\<close> on and is never
  removed, so a method call on the object is an update of the registry entry.
\<close>

definition on_run :: "'dt SessionService \<Rightarrow> string \<Rightarrow> ('dt RunState \<Rightarrow> 'dt RunState) \<Rightarrow> 'dt SessionService" where
  "on_run svc rid f =
     (case runs svc rid of Some run \<Rightarrow> svc\<lparr>runs := (runs svc)(rid \<mapsto> f run)\<rparr> | None \<Rightarrow> svc)"

text \<open>
  \<^verbatim>\<open>_execute_inference\<close>. It returns the exception it raised, if any, with the state it
  left behind. What follows the key check (the logger, the call into the RLM library and
  the bookkeeping after it) is the parameter \<open>body\<close>.
\<close>

definition execute_inference ::
  "Settings \<Rightarrow> ('dt SessionService \<Rightarrow> py_error option \<times> 'dt SessionService) \<Rightarrow> 'dt ChatSession
    \<Rightarrow> 'dt SessionService \<Rightarrow> py_error option \<times> 'dt SessionService" where
  "execute_inference settings body session svc =
     (let provider = get_model_provider (model_id session)
      in if \<not> validate_api_key settings provider
         then (if provider = ''openai''
               then (Some (ValueError ''OpenAI API key not configured. Set OPENAI_API_KEY in .env''), svc)
               else (Some (ValueError ''Anthropic API key not configured. Set ANTHROPIC_API_KEY in .env''), svc))
         else body svc)"

definition error_event :: "string \<Rightarrow> string \<Rightarrow> string \<Rightarrow> string \<Rightarrow> string \<Rightarrow> event" where
  "error_event ts sid rid msg tb =
     [(''type'', JStr ''error''), (''timestamp'', JStr ts), (''session_id'', JStr sid),
      (''run_id'', JStr rid), (''message'', JStr msg), (''code'', JStr ''INFERENCE_ERROR''),
      (''traceback'', JStr tb)]"

text \<open>
  \<^verbatim>\<open>run_thread\<close>, the body of the background thread: \<open>tb\<close> is
  \<^verbatim>\<open>traceback.format_exc()\<close>, \<open>now\<close> the time at which the exception is handled.
\<close>

definition run_thread ::
  "Settings \<Rightarrow> ('dt SessionService \<Rightarrow> py_error option \<times> 'dt SessionService) \<Rightarrow> ('dt \<Rightarrow> string) \<Rightarrow> 'dt
    \<Rightarrow> string \<Rightarrow> 'dt RLMService \<Rightarrow> 'dt ChatSession \<Rightarrow> string \<Rightarrow> 'dt RLMService" where
  "run_thread settings body isoformat now tb w session rid =
     (let (exc, svc1) = execute_inference settings body session (service w);
          svc2 = (case exc of
                    None \<Rightarrow> svc1
                  | Some e \<Rightarrow>
                      complete_run
                        (on_run svc1 rid (\<lambda>run. add_event run
                           (error_event (isoformat now) (ChatSession.session_id session) rid (str_of e) tb)))
                        rid None (Some (str_of e)))
      in w\<lparr>service := svc2, active_threads := (active_threads w)(rid := None)\<rparr>)"

text \<open>\<^verbatim>\<open>run_inference\<close> registers the thread and starts it; it reads no setting.\<close>

definition run_inference :: "'dt RLMService \<Rightarrow> 'dt ChatSession \<Rightarrow> string \<Rightarrow> string \<Rightarrow> 'dt RLMService" where
  "run_inference w session rid msg =
     w\<lparr>active_threads := (active_threads w)(rid \<mapsto>
          \<lparr> target_session = ChatSession.session_id session, target_run = rid,
            target_message = msg, daemon = True \<rparr>)\<rparr>"

section \<open>api/routes/chat.py\<close>

datatype response = HTTPException nat string | SubmitMessageResponse string string

text \<open>\<^verbatim>\<open>submit_message\<close>; \<open>rid\<close> is the fresh run id, \<open>now\<close> the time of the call.\<close>

definition submit_message ::
  "'dt RLMService \<Rightarrow> string \<Rightarrow> string \<Rightarrow> string \<Rightarrow> 'dt \<Rightarrow> response \<times> 'dt RLMService" where
  "submit_message w sid msg rid now =
     (case get_session (service w) sid of
        None \<Rightarrow> (HTTPException 404 ''Session not found'', w)
      | Some session \<Rightarrow>
          (if strip msg = [] then (HTTPException 400 ''Message cannot be empty'', w)
           else (let (run, svc1) = create_run (service w) rid sid msg now;
                     w1 = run_inference (w\<lparr>service := svc1\<rparr>) session rid msg
                 in (SubmitMessageResponse rid
                       ''Message submitted. Connect to SSE stream to receive progress.'', w1))))"




definition is_terminal :: "event \<Rightarrow> bool" where
  "is_terminal ev =
     (map_of ev ''type'' = Some (JStr ''final_answer'') \<or> map_of ev ''type'' = Some (JStr ''error''))"

definition is_heartbeat :: "event \<Rightarrow> bool" where
  "is_heartbeat ev = (map_of ev ''type'' = Some (JStr ''heartbeat''))"


definition heartbeat_event :: "string \<Rightarrow> string \<Rightarrow> string \<Rightarrow> event" where
  "heartbeat_event ts sid rid =
     [(''type'', JStr ''heartbeat''), (''timestamp'', JStr ts), (''session_id'', JStr sid),
      (''run_id'', JStr rid)]"






section \<open>Concrete states used to evaluate the definitions\<close>

definition run0 :: "nat RunState" where
  "run0 = RunState_init ''r1'' ''s1'' ''What is in the report?'' 100"

definition svc0 :: "nat SessionService" where
  "svc0 = \<lparr> sessions = Map.empty, runs = [''r1'' \<mapsto> run0], files = Map.empty, closed = [] \<rparr>"

definition ev_start :: event where
  "ev_start = [(''type'', JStr ''session_start''), (''timestamp'', JStr ''2024-05-01T10:00:00''),
               (''session_id'', JStr ''s1''), (''run_id'', JStr ''r1'')]"

definition ev_iter :: event where
  "ev_iter = [(''type'', JStr ''iteration_start''), (''timestamp'', JStr ''2024-05-01T10:00:01''),
              (''session_id'', JStr ''s1''), (''run_id'', JStr ''r1''), (''iteration'', JInt 1)]"

definition ev_final :: event where
  "ev_final = [(''type'', JStr ''final_answer''), (''timestamp'', JStr ''2024-05-01T10:00:02''),
               (''session_id'', JStr ''s1''), (''run_id'', JStr ''r1''), (''answer'', JStr ''42'')]"

definition title_example :: string where
  "title_example = ''Tell me about the quarterly earnings report for Q3 and its implications''"

definition title_padded :: string where
  "title_padded = ''Summarize the attached report'' @ replicate 30 (CHR '' '')"

text \<open>
  A concrete clock for the examples: a \<^verbatim>\<open>datetime\<close> is the number of seconds since midnight
  of 1 May 2024, printed and parsed in the ISO format of \<^verbatim>\<open>datetime.isoformat\<close>.
\<close>

definition digit :: "nat \<Rightarrow> char" where
  "digit k = ''0123456789'' ! (k mod 10)"

definition two_digits :: "nat \<Rightarrow> string" where
  "two_digits k = [digit (k div 10), digit (k mod 10)]"

definition digit_val :: "char \<Rightarrow> nat option" where
  "digit_val c = (let n = (of_char c :: nat) in if 48 \<le> n \<and> n \<le> 57 then Some (n - 48) else None)"

definition two_val :: "string \<Rightarrow> nat option" where
  "two_val s =
     (case s of
        [a, b] \<Rightarrow> (case (digit_val a, digit_val b) of (Some x, Some y) \<Rightarrow> Some (10 * x + y) | _ \<Rightarrow> None)
      | _ \<Rightarrow> None)"

definition clock_isoformat :: "nat \<Rightarrow> string" where
  "clock_isoformat n =
     ''2024-05-01T'' @ two_digits (n div 3600) @ '':'' @ two_digits (n div 60 mod 60) @ '':''
       @ two_digits (n mod 60)"

definition clock_fromisoformat :: "string \<Rightarrow> nat option" where
  "clock_fromisoformat s =
     (if length s = 19 \<and> take 11 s = ''2024-05-01T'' \<and> s ! 13 = CHR '':'' \<and> s ! 16 = CHR '':''
      then (case (two_val (take 2 (drop 11 s)), two_val (take 2 (drop 14 s)), two_val (drop 17 s)) of
              (Some h, Some m, Some sec) \<Rightarrow> Some (3600 * h + 60 * m + sec)
            | _ \<Rightarrow> None)
      else None)"


definition sess0 :: "nat ChatSession" where
  "sess0 = ChatSession_init ''s1'' ''claude-opus-4-5-20251101'' [''doc-1''] None ''active''
             None None None None 36000"

definition sess1 :: "nat ChatSession" where
  "sess1 =
     add_progress_events
       (snd (add_message (snd (add_message sess0 ''user'' title_example None 36010))
          ''assistant'' ''Revenue grew by 4 percent.'' (Some ''r1'') 36055))
       ''r1'' [ev_start, ev_iter, ev_final]"

definition handle0 :: rlm_handle where
  "handle0 = \<lparr> handle_id = 7, close_raises = True \<rparr>"

definition svc1 :: "nat SessionService" where
  "svc1 = \<lparr> sessions = [''s0'' \<mapsto> sess0\<lparr>ChatSession.session_id := ''s0'', rlm_instance := Some handle0\<rparr>,
                          ''s1'' \<mapsto> sess1\<lparr>rlm_instance := Some handle0\<rparr>],
            runs = [''r1'' \<mapsto> run0],
            files = [''s0'' \<mapsto> to_persist_dict clock_isoformat (sess0\<lparr>ChatSession.session_id := ''s0''\<rparr>),
                     ''s1'' \<mapsto> to_persist_dict clock_isoformat sess0],
            closed = [] \<rparr>"

definition ev_late :: event where
  "ev_late = [(''type'', JStr ''llm_response''), (''timestamp'', JStr ''2024-05-01T10:00:05''),
              (''session_id'', JStr ''s1''), (''run_id'', JStr ''r1''), (''iteration'', JInt 1)]"

definition ev_early :: event where
  "ev_early = [(''type'', JStr ''code_start''), (''timestamp'', JStr ''2024-05-01T09:59:00''),
               (''session_id'', JStr ''s1''), (''run_id'', JStr ''r1''), (''iteration'', JInt 1)]"

definition settings0 :: Settings where
  "settings0 = \<lparr> anthropic_api_key = '''', openai_api_key = ''your-api-key-here'',
                  anthropic_base_url = None, anthropic_auth_token = None \<rparr>"

definition sess_gpt :: "nat ChatSession" where
  "sess_gpt = ChatSession_init ''s1'' ''gpt-5-mini'' [''doc-1''] None ''active'' None None None None 36000"

definition world0 :: "nat RLMService" where
  "world0 = \<lparr> service = \<lparr> sessions = [''s1'' \<mapsto> sess_gpt], runs = Map.empty, files = Map.empty,
                           closed = [] \<rparr>,
              active_threads = Map.empty \<rparr>"

definition world1 :: "nat RLMService" where
  "world1 = \<lparr> service = svc1, active_threads = Map.empty \<rparr>"

definition body0 :: "nat SessionService \<Rightarrow> py_error option \<times> nat SessionService" where
  "body0 svc = (None, complete_run svc ''r9'' (Some ''an answer'') None)"











section \<open>The event log\<close>

lemma slice_from_nonneg: "0 \<le> k \<Longrightarrow> slice_from xs k = drop (nat k) xs"
  by (simp add: slice_from_def)

lemma events_foldl_add_event: "events (foldl add_event run es) = events run @ es"
  by (induction es arbitrary: run) (simp_all add: add_event_def)

text \<open>
  C4. After any sequence \<open>es\<close> of \<^verbatim>\<open>add_event\<close> calls on a fresh run,
  \<^verbatim>\<open>get_events(0)\<close> returns exactly \<open>es\<close> in append order, and for every logical index
  \<open>k\<close> (an index is not negative) \<^verbatim>\<open>get_events(k)\<close> returns the suffix of \<open>es\<close> that
  starts at index \<open>k\<close>.
\<close>

theorem get_events_after_appends:
  "get_events (foldl add_event (RunState_init rid sid msg now) es) 0 = es \<and>
   (0 \<le> k \<longrightarrow> get_events (foldl add_event (RunState_init rid sid msg now) es) k = drop (nat k) es)"
  by (simp add: get_events_def events_foldl_add_event slice_from_nonneg RunState_init_def)

theorem get_events_after_appends_witness:
  "get_events (foldl add_event run0 [ev_start, ev_iter, ev_final]) 0 = [ev_start, ev_iter, ev_final] \<and>
   (0::int) \<le> 1 \<and>
   get_events (foldl add_event run0 [ev_start, ev_iter, ev_final]) 1 = [ev_iter, ev_final]"
  using get_events_after_appends [of "''r1''" "''s1''" "''What is in the report?''" "100::nat"
      "[ev_start, ev_iter, ev_final]" 1]
  by (simp add: run0_def)

section \<open>The run registry\<close>

text \<open>
  C1 as stated fails: the second \<^verbatim>\<open>complete_run\<close> on a run replaces what the first one
  recorded.
\<close>

theorem complete_run_second_call_overwrites:
  "map_option result (runs (complete_run svc0 ''r1'' (Some ''first answer'') None) ''r1'')
     = Some (Some ''first answer'') \<and>
   map_option completed (runs (complete_run svc0 ''r1'' (Some ''first answer'') None) ''r1'')
     = Some True \<and>
   map_option result
     (runs (complete_run (complete_run svc0 ''r1'' (Some ''first answer'') None)
        ''r1'' None (Some ''late failure'')) ''r1'') = Some None \<and>
   map_option error
     (runs (complete_run (complete_run svc0 ''r1'' (Some ''first answer'') None)
        ''r1'' None (Some ''late failure'')) ''r1'') = Some (Some ''late failure'')"
  by (simp add: complete_run_def svc0_def run0_def RunState_init_def)

text \<open>
  C1, amended. \<^verbatim>\<open>complete_run\<close> on a registered run sets \<open>completed\<close> and stores the
  result and error of that very call, so after two calls the run holds the arguments of
  the second one (the last writer wins) and the state is the one a single call with the
  second arguments gives; \<open>completed\<close> stays true, and a repeated call with the same
  arguments changes nothing.
\<close>

theorem complete_run_last_writer:
  "runs svc rid = Some run \<Longrightarrow>
     runs (complete_run (complete_run svc rid res1 err1) rid res2 err2) rid
       = Some (run\<lparr>completed := True, result := res2, error := err2\<rparr>) \<and>
     complete_run (complete_run svc rid res1 err1) rid res2 err2 = complete_run svc rid res2 err2 \<and>
     complete_run (complete_run svc rid res1 err1) rid res1 err1 = complete_run svc rid res1 err1"
  by (simp add: complete_run_def)

theorem complete_run_last_writer_witness:
  "runs svc0 ''r1'' = Some run0 \<and>
   runs (complete_run (complete_run svc0 ''r1'' (Some ''first answer'') None)
      ''r1'' None (Some ''late failure'')) ''r1''
     = Some (run0\<lparr>completed := True, result := None, error := Some ''late failure''\<rparr>)"
proof -
  have h: "runs svc0 ''r1'' = Some run0" by (simp add: svc0_def)
  show ?thesis
    using h complete_run_last_writer
      [OF h, of "Some ''first answer''" None None "Some ''late failure''"]
    by blast
qed

text \<open>
  C10. \<^verbatim>\<open>complete_run\<close> with a run id that is not registered returns normally (the
  model has no error branch, as the source has none) and leaves the whole service state,
  every run and every session, as it was.
\<close>

theorem complete_run_unknown_noop:
  "runs svc rid = None \<Longrightarrow> complete_run svc rid res err = svc"
  by (simp add: complete_run_def)

theorem complete_run_unknown_noop_witness:
  "runs svc0 ''nope'' = None \<and> complete_run svc0 ''nope'' (Some ''x'') None = svc0"
proof -
  have h: "runs svc0 ''nope'' = None" by (simp add: svc0_def)
  show ?thesis using h complete_run_unknown_noop [OF h] by simp
qed

text \<open>
  C9. \<^verbatim>\<open>cancel_run\<close> returns \<^verbatim>\<open>True\<close> exactly when the run is registered and not yet
  completed; then the run is completed with error \<^verbatim>\<open>"Cancelled by user"\<close> and no result
  and nothing else changes. Otherwise it returns \<^verbatim>\<open>False\<close> and the state is unchanged.
\<close>

theorem cancel_run_spec:
  "fst (cancel_run svc rid) = (\<exists>run. runs svc rid = Some run \<and> \<not> completed run) \<and>
   (\<forall>run. runs svc rid = Some run \<and> \<not> completed run \<longrightarrow>
      snd (cancel_run svc rid) =
        svc\<lparr>runs := (runs svc)(rid \<mapsto>
          run\<lparr>completed := True, result := None, error := Some ''Cancelled by user''\<rparr>)\<rparr>) \<and>
   (\<not> fst (cancel_run svc rid) \<longrightarrow> snd (cancel_run svc rid) = svc)"
  by (auto simp: cancel_run_def get_run_def complete_run_def split: option.splits)

theorem cancel_run_spec_witness:
  "fst (cancel_run svc0 ''r1'') \<and>
   snd (cancel_run svc0 ''r1'') =
     svc0\<lparr>runs := (runs svc0)(''r1'' \<mapsto>
       run0\<lparr>completed := True, result := None, error := Some ''Cancelled by user''\<rparr>)\<rparr> \<and>
   \<not> fst (cancel_run (snd (cancel_run svc0 ''r1'')) ''r1'') \<and>
   snd (cancel_run (snd (cancel_run svc0 ''r1'')) ''r1'') = snd (cancel_run svc0 ''r1'') \<and>
   \<not> fst (cancel_run svc0 ''nope'') \<and> snd (cancel_run svc0 ''nope'') = svc0"
proof -
  have r: "runs svc0 ''r1'' = Some run0" and c: "\<not> completed run0"
    by (simp_all add: svc0_def run0_def RunState_init_def)
  have n: "runs svc0 ''nope'' = None" by (simp add: svc0_def)
  from cancel_run_spec [of svc0 "''r1''"] r c
  have a: "fst (cancel_run svc0 ''r1'')"
    and b: "snd (cancel_run svc0 ''r1'') =
      svc0\<lparr>runs := (runs svc0)(''r1'' \<mapsto>
        run0\<lparr>completed := True, result := None, error := Some ''Cancelled by user''\<rparr>)\<rparr>"
    by auto
  from cancel_run_spec [of "snd (cancel_run svc0 ''r1'')" "''r1''"] b
  have d: "\<not> fst (cancel_run (snd (cancel_run svc0 ''r1'')) ''r1'')"
    and e: "snd (cancel_run (snd (cancel_run svc0 ''r1'')) ''r1'') = snd (cancel_run svc0 ''r1'')"
    by auto
  from cancel_run_spec [of svc0 "''nope''"] n
  have f: "\<not> fst (cancel_run svc0 ''nope'')" and g: "snd (cancel_run svc0 ''nope'') = svc0"
    by auto
  show ?thesis using a b d e f g by blast
qed

section \<open>Title derivation\<close>

lemma length_rsplit_head: "length (rsplit_head s) \<le> length s"
proof -
  have "length (tl (dropWhile (\<lambda>c. c \<noteq> CHR '' '') (rev s))) \<le> length (rev s)"
    by (metis length_dropWhile_le length_tl diff_le_self le_trans)
  then show ?thesis by (simp add: rsplit_head_def)
qed

lemma rsplit_head_cut:
  assumes "CHR '' '' \<in> set s"
  shows "\<exists>w. s = rsplit_head s @ CHR '' '' # w \<and> CHR '' '' \<notin> set w"
proof -
  let ?P = "\<lambda>c. c \<noteq> CHR '' ''"
  have ne: "dropWhile ?P (rev s) \<noteq> []"
    using assms by (simp add: dropWhile_eq_Nil_conv)
  then have hd: "hd (dropWhile ?P (rev s)) = CHR '' ''"
    using hd_dropWhile [of ?P "rev s"] by simp
  have "rev s = takeWhile ?P (rev s) @ dropWhile ?P (rev s)" by simp
  also have "dropWhile ?P (rev s) = CHR '' '' # tl (dropWhile ?P (rev s))"
    using ne hd by (cases "dropWhile ?P (rev s)") simp_all
  finally have "rev (rev s) = rev (takeWhile ?P (rev s) @ CHR '' '' # tl (dropWhile ?P (rev s)))"
    by simp
  then have "s = rev (tl (dropWhile ?P (rev s))) @ CHR '' '' # rev (takeWhile ?P (rev s))"
    by simp
  moreover have "CHR '' '' \<notin> set (rev (takeWhile ?P (rev s)))"
    using set_takeWhileD by fastforce
  ultimately show ?thesis using assms by (auto simp: rsplit_head_def)
qed

lemma generate_title_short: "length (strip c) \<le> 50 \<Longrightarrow> generate_title c = strip c"
  by (simp add: generate_title_def)

lemma generate_title_long:
  "50 < length (strip c) \<Longrightarrow>
     generate_title c =
       (if length (rsplit_head (take 50 (strip c))) < 20 then take 50 c
        else rsplit_head (take 50 (strip c))) @ ''...''"
  by (simp add: generate_title_def Let_def)

lemma generate_title_length: "50 < length (strip c) \<Longrightarrow> length (generate_title c) \<le> 53"
  using length_rsplit_head [of "take 50 (strip c)"]
  by (simp add: generate_title_long)

lemma add_message_title:
  "title (snd (add_message s r c rid now)) =
     (case title s of
        Some t \<Rightarrow> Some t
      | None \<Rightarrow> if r = ''user'' then Some (generate_title c) else None)"
  by (simp add: add_message_def Let_def split: option.splits)

text \<open>
  C8 as stated fails: the length test is made on the stripped content. A content of 59
  characters whose last 30 are spaces gets a title without the ellipsis, and a short
  content with leading spaces is not stored verbatim. A word of 60 letters is cut in its
  middle, at 50 characters.
\<close>

theorem generate_title_padded_content:
  "length title_padded = 59 \<and>
   generate_title title_padded = ''Summarize the attached report'' \<and>
   generate_title ''  hi'' = ''hi'' \<and>
   generate_title (replicate 60 (CHR ''a'')) = replicate 50 (CHR ''a'') @ ''...''"
  by code_simp

text \<open>
  C8, amended. With \<open>t\<close> the content stripped of surrounding whitespace: if \<open>t\<close> has at most
  50 characters the title is \<open>t\<close>. If \<open>t\<close> is longer, the title has at most 53 characters
  and ends in \<^verbatim>\<open>...\<close>; what stands before the ellipsis is the first 50 characters of \<open>t\<close>
  cut before their last space (all 50 when they hold no space), unless that leaves fewer
  than 20 characters, and then it is the first 50 characters of the content. A cut before
  the last space is a cut at a word boundary: the removed part starts with that space and
  holds no other. \<^verbatim>\<open>add_message\<close> derives the title only when the session has none and
  the role is \<^verbatim>\<open>user\<close>; a title that is set is never changed by a later message.
\<close>

theorem generate_title_spec:
  "(length (strip c) \<le> 50 \<longrightarrow> generate_title c = strip c) \<and>
   (50 < length (strip c) \<longrightarrow>
      length (generate_title c) \<le> 53 \<and>
      generate_title c =
        (if length (rsplit_head (take 50 (strip c))) < 20 then take 50 c
         else rsplit_head (take 50 (strip c))) @ ''...'' \<and>
      (CHR '' '' \<in> set (take 50 (strip c)) \<longrightarrow>
         (\<exists>w. take 50 (strip c) = rsplit_head (take 50 (strip c)) @ CHR '' '' # w \<and>
              CHR '' '' \<notin> set w)) \<and>
      (CHR '' '' \<notin> set (take 50 (strip c)) \<longrightarrow>
         rsplit_head (take 50 (strip c)) = take 50 (strip c))) \<and>
   title (snd (add_message s r c rid now)) =
     (case title s of
        Some t \<Rightarrow> Some t
      | None \<Rightarrow> if r = ''user'' then Some (generate_title c) else None)"
proof (intro conjI impI)
  show "title (snd (add_message s r c rid now)) =
     (case title s of
        Some t \<Rightarrow> Some t
      | None \<Rightarrow> if r = ''user'' then Some (generate_title c) else None)"
    by (rule add_message_title)
next
  assume "length (strip c) \<le> 50"
  then show "generate_title c = strip c" by (rule generate_title_short)
next
  assume "50 < length (strip c)"
  then show "length (generate_title c) \<le> 53" by (rule generate_title_length)
next
  assume "50 < length (strip c)"
  then show "generate_title c =
        (if length (rsplit_head (take 50 (strip c))) < 20 then take 50 c
         else rsplit_head (take 50 (strip c))) @ ''...''"
    by (rule generate_title_long)
next
  assume "CHR '' '' \<in> set (take 50 (strip c))"
  then show "\<exists>w. take 50 (strip c) = rsplit_head (take 50 (strip c)) @ CHR '' '' # w \<and>
              CHR '' '' \<notin> set w"
    by (rule rsplit_head_cut)
next
  assume "CHR '' '' \<notin> set (take 50 (strip c))"
  then show "rsplit_head (take 50 (strip c)) = take 50 (strip c)"
    by (simp add: rsplit_head_def)
qed

theorem generate_title_spec_witness:
  "50 < length (strip title_example) \<and>
   length (generate_title title_example) \<le> 53 \<and>
   generate_title title_example = ''Tell me about the quarterly earnings report for...'' \<and>
   title sess0 = None \<and>
   title (snd (add_message sess0 ''user'' title_example None 36010)) =
     Some ''Tell me about the quarterly earnings report for...'' \<and>
   title (snd (add_message (snd (add_message sess0 ''user'' title_example None 36010))
      ''user'' ''And what about Q4?'' None 36020)) =
     Some ''Tell me about the quarterly earnings report for...''"
proof -
  have long: "50 < length (strip title_example)" by code_simp
  have val: "generate_title title_example = ''Tell me about the quarterly earnings report for...''"
    by code_simp
  have t0: "title sess0 = None" by (simp add: sess0_def ChatSession_init_def)
  have len: "length (generate_title title_example) \<le> 53"
    using generate_title_spec [of title_example sess0 "''user''" None 36010] long by blast
  have t1: "title (snd (add_message sess0 ''user'' title_example None 36010)) =
      Some (generate_title title_example)"
    using generate_title_spec [of title_example sess0 "''user''" None 36010] t0 by simp
  have t2: "title (snd (add_message (snd (add_message sess0 ''user'' title_example None 36010))
      ''user'' ''And what about Q4?'' None 36020)) = Some (generate_title title_example)"
    using generate_title_spec [of "''And what about Q4?''"
        "snd (add_message sess0 ''user'' title_example None 36010)" "''user''" None 36020] t1
    by simp
  show ?thesis using long len val t0 t1 t2 by simp
qed

section \<open>Ending a session\<close>

lemma try_close_eq: "try_close svc h = svc\<lparr>closed := closed svc @ [handle_id h]\<rparr>"
  by (simp add: try_close_def split: sum.splits)

text \<open>
  C6. For a registered session, \<^verbatim>\<open>end_session\<close> returns \<^verbatim>\<open>True\<close> and calls
  \<^verbatim>\<open>close()\<close> on an attached RLM instance, whether or not that call raises. With no
  messages the session leaves the in-memory map and its file is removed. With at least one
  message the session stays, with status \<^verbatim>\<open>ended\<close>, \<^verbatim>\<open>ended_at\<close> set to the
  current time and no RLM instance, and that state is what is written to its file.
  Nothing else of the service changes.
\<close>

theorem end_session_spec:
  "sessions svc sid = Some s \<Longrightarrow>
     fst (end_session isoformat svc sid now) \<and>
     (messages s = [] \<longrightarrow>
        snd (end_session isoformat svc sid now) =
          svc\<lparr>sessions := (sessions svc)(sid := None),
              files := (files svc)(sid := None),
              closed := closed svc @ (case rlm_instance s of Some h \<Rightarrow> [handle_id h] | None \<Rightarrow> [])\<rparr>) \<and>
     (messages s \<noteq> [] \<longrightarrow>
        snd (end_session isoformat svc sid now) =
          svc\<lparr>sessions := (sessions svc)(sid \<mapsto>
                 s\<lparr>status := ''ended'', ended_at := Some now, rlm_instance := None\<rparr>),
              files := (files svc)(ChatSession.session_id s \<mapsto>
                 to_persist_dict isoformat
                   (s\<lparr>status := ''ended'', ended_at := Some now, rlm_instance := None\<rparr>)),
              closed := closed svc @ (case rlm_instance s of Some h \<Rightarrow> [handle_id h] | None \<Rightarrow> [])\<rparr>)"
proof (cases s, cases svc)
  fix a b c d e f g h i j more k l m n more'
  assume s: "s = \<lparr>ChatSession.session_id = a, model_id = b, document_ids = c, title = d, status = e,
      created_at = f, ended_at = g, messages = h, progress_events = i, rlm_instance = j, \<dots> = more\<rparr>"
    and svc: "svc = \<lparr>sessions = k, runs = l, files = m, closed = n, \<dots> = more'\<rparr>"
    and reg: "sessions svc sid = Some s"
  show ?thesis
    using reg unfolding s svc
    by (cases j)
       (simp_all add: end_session_def try_close_eq delete_persisted_session_def
          persist_session_def Let_def)
qed

theorem end_session_spec_witness:
  "sessions svc1 ''s0'' = Some (sess0\<lparr>ChatSession.session_id := ''s0'', rlm_instance := Some handle0\<rparr>) \<and>
   fst (end_session clock_isoformat svc1 ''s0'' 40000) \<and>
   sessions (snd (end_session clock_isoformat svc1 ''s0'' 40000)) ''s0'' = None \<and>
   files (snd (end_session clock_isoformat svc1 ''s0'' 40000)) ''s0'' = None \<and>
   closed (snd (end_session clock_isoformat svc1 ''s0'' 40000)) = [7] \<and>
   sessions svc1 ''s1'' = Some (sess1\<lparr>rlm_instance := Some handle0\<rparr>) \<and>
   length (messages sess1) = 2 \<and>
   fst (end_session clock_isoformat svc1 ''s1'' 40000) \<and>
   sessions (snd (end_session clock_isoformat svc1 ''s1'' 40000)) ''s1'' =
     Some (sess1\<lparr>status := ''ended'', ended_at := Some 40000, rlm_instance := None\<rparr>) \<and>
   files (snd (end_session clock_isoformat svc1 ''s1'' 40000)) ''s1'' =
     Some (to_persist_dict clock_isoformat
       (sess1\<lparr>status := ''ended'', ended_at := Some 40000, rlm_instance := None\<rparr>)) \<and>
   closed (snd (end_session clock_isoformat svc1 ''s1'' 40000)) = [7]"
proof -
  have r0: "sessions svc1 ''s0'' = Some (sess0\<lparr>ChatSession.session_id := ''s0'', rlm_instance := Some handle0\<rparr>)"
    and r1: "sessions svc1 ''s1'' = Some (sess1\<lparr>rlm_instance := Some handle0\<rparr>)"
    by (simp_all add: svc1_def)
  have m0: "messages (sess0\<lparr>ChatSession.session_id := ''s0'', rlm_instance := Some handle0\<rparr>) = []"
    by (simp add: sess0_def ChatSession_init_def)
  have m1: "length (messages sess1) = 2"
    by (simp add: sess1_def sess0_def ChatSession_init_def add_message_def add_progress_events_def Let_def)
  then have m1': "messages (sess1\<lparr>rlm_instance := Some handle0\<rparr>) \<noteq> []" by auto
  have id1: "ChatSession.session_id sess1 = ''s1''"
    by (simp add: sess1_def sess0_def ChatSession_init_def add_message_def add_progress_events_def Let_def)
  have c: "closed svc1 = []" by (simp add: svc1_def)
  note e0 = end_session_spec [OF r0, of clock_isoformat 40000]
  note e1 = end_session_spec [OF r1, of clock_isoformat 40000]
  have a0: "fst (end_session clock_isoformat svc1 ''s0'' 40000)" using e0 by blast
  have b0: "snd (end_session clock_isoformat svc1 ''s0'' 40000) =
      svc1\<lparr>sessions := (sessions svc1)(''s0'' := None), files := (files svc1)(''s0'' := None),
           closed := closed svc1 @ [handle_id handle0]\<rparr>"
    using e0 m0 by simp
  have a1: "fst (end_session clock_isoformat svc1 ''s1'' 40000)" using e1 by blast
  have b1: "snd (end_session clock_isoformat svc1 ''s1'' 40000) =
      svc1\<lparr>sessions := (sessions svc1)(''s1'' \<mapsto>
              sess1\<lparr>status := ''ended'', ended_at := Some 40000, rlm_instance := None\<rparr>),
           files := (files svc1)(''s1'' \<mapsto> to_persist_dict clock_isoformat
              (sess1\<lparr>status := ''ended'', ended_at := Some 40000, rlm_instance := None\<rparr>)),
           closed := closed svc1 @ [handle_id handle0]\<rparr>"
    using e1 m1' id1 by simp
  show ?thesis
    using r0 r1 m1 a0 a1 by (simp add: b0 b1 c handle0_def)
qed

section \<open>Persistence round trip\<close>

lemma load_messages_roundtrip:
  "\<forall>m \<in> set ms. \<exists>d. timestamp m = Datetime d \<and> fromisoformat (isoformat d) = Some d \<Longrightarrow>
   load_messages fromisoformat
     (map (\<lambda>msg. msg\<lparr>timestamp :=
        (case timestamp msg of Datetime d \<Rightarrow> Iso (isoformat d) | Iso t \<Rightarrow> Iso t)\<rparr>) ms) = Inr ms"
proof (induction ms)
  case Nil
  then show ?case by simp
next
  case (Cons m ms)
  then obtain d where d: "timestamp m = Datetime d" "fromisoformat (isoformat d) = Some d"
    by auto
  have "load_messages fromisoformat
     (map (\<lambda>msg. msg\<lparr>timestamp :=
        (case timestamp msg of Datetime d \<Rightarrow> Iso (isoformat d) | Iso t \<Rightarrow> Iso t)\<rparr>) ms) = Inr ms"
    using Cons by simp
  moreover have "m\<lparr>timestamp := Datetime d\<rparr> = m" using d(1) by simp
  ultimately show ?case using d by (simp add: from_iso_def)
qed

text \<open>
  C7. For a session whose messages carry \<^verbatim>\<open>datetime\<close> timestamps (what
  \<^verbatim>\<open>add_message\<close> and \<^verbatim>\<open>from_persist_dict\<close> produce), reading back the record
  that \<^verbatim>\<open>to_persist_dict\<close> writes gives the session again, in every persisted field:
  identifiers, title, status, both dates, every message with its role, content,
  timestamp and run id, and the archived events of every run. The live RLM instance is
  not persisted. The standard library's promise that \<^verbatim>\<open>fromisoformat\<close> inverts
  \<^verbatim>\<open>isoformat\<close>, and that the printed date is not the empty string, is assumed for the
  dates of the session.
\<close>

theorem persist_roundtrip:
  assumes "\<forall>m \<in> set (messages s). \<exists>d. timestamp m = Datetime d \<and> fromisoformat (isoformat d) = Some d"
    and "fromisoformat (isoformat (created_at s)) = Some (created_at s)"
    and "\<forall>e. ended_at s = Some e \<longrightarrow> fromisoformat (isoformat e) = Some e \<and> isoformat e \<noteq> []"
  shows "from_persist_dict fromisoformat now (to_persist_dict isoformat s) = Inr (s\<lparr>rlm_instance := None\<rparr>)"
proof -
  have m: "load_messages fromisoformat
     (map (\<lambda>msg. msg\<lparr>timestamp :=
        (case timestamp msg of Datetime d \<Rightarrow> Iso (isoformat d) | Iso t \<Rightarrow> Iso t)\<rparr>) (messages s)) = Inr (messages s)"
    using assms(1) by (rule load_messages_roundtrip)
  show ?thesis
    using m assms(2,3)
    by (cases "ended_at s")
       (simp_all add: from_persist_dict_def to_persist_dict_def from_iso_def ChatSession_init_def)
qed

lemma sess1_messages:
  "messages sess1 =
     [\<lparr>role = ''user'', content = title_example, timestamp = Datetime 36010, run_id = None\<rparr>,
      \<lparr>role = ''assistant'', content = ''Revenue grew by 4 percent.'', timestamp = Datetime 36055,
        run_id = Some ''r1''\<rparr>]"
  by (simp add: sess1_def sess0_def ChatSession_init_def add_message_def add_progress_events_def Let_def)

lemma clock_isoformat_nonempty: "clock_isoformat n \<noteq> []"
  by (simp add: clock_isoformat_def)

lemma clock_roundtrip_values:
  "clock_fromisoformat (clock_isoformat 36000) = Some 36000"
  "clock_fromisoformat (clock_isoformat 36010) = Some 36010"
  "clock_fromisoformat (clock_isoformat 36055) = Some 36055"
  "clock_fromisoformat (clock_isoformat 40000) = Some 40000"
  by (simp_all add: clock_isoformat_def two_digits_def digit_def clock_fromisoformat_def
        two_val_def digit_val_def)

theorem persist_roundtrip_witness:
  "from_persist_dict clock_fromisoformat 50000
     (to_persist_dict clock_isoformat (sess1\<lparr>status := ''ended'', ended_at := Some 40000\<rparr>))
     = Inr (sess1\<lparr>status := ''ended'', ended_at := Some 40000\<rparr>) \<and>
   length (messages sess1) = 2 \<and>
   progress_events sess1 ''r1'' = Some [ev_start, ev_iter, ev_final]"
proof -
  let ?s = "sess1\<lparr>status := ''ended'', ended_at := Some 40000\<rparr>"
  have h1: "\<forall>m \<in> set (messages ?s).
      \<exists>d. timestamp m = Datetime d \<and> clock_fromisoformat (clock_isoformat d) = Some d"
    by (simp add: sess1_messages clock_roundtrip_values)
  have c: "created_at ?s = 36000"
    by (simp add: sess1_def sess0_def ChatSession_init_def add_message_def add_progress_events_def Let_def)
  have h2: "clock_fromisoformat (clock_isoformat (created_at ?s)) = Some (created_at ?s)"
    by (simp add: c clock_roundtrip_values)
  have h3: "\<forall>e. ended_at ?s = Some e \<longrightarrow>
      clock_fromisoformat (clock_isoformat e) = Some e \<and> clock_isoformat e \<noteq> []"
    by (simp add: clock_roundtrip_values clock_isoformat_nonempty)
  have n: "rlm_instance ?s = None"
    by (simp add: sess1_def sess0_def ChatSession_init_def add_message_def add_progress_events_def Let_def)
  then have e: "?s\<lparr>rlm_instance := None\<rparr> = ?s" by simp
  have p: "progress_events sess1 ''r1'' = Some [ev_start, ev_iter, ev_final]"
    by (simp add: sess1_def add_progress_events_def)
  show ?thesis
    using persist_roundtrip [OF h1 h2 h3, of 50000] p
    by (simp add: e sess1_messages)
qed

section \<open>The emit path\<close>

lemma map_of_dict_set: "map_of (dict_set k v d) = (map_of d)(k \<mapsto> v)"
  by (induction d) (auto simp: fun_eq_iff)

lemma map_of_dict_merge_other:
  "k \<notin> fst ` set kwargs \<Longrightarrow> map_of (dict_merge base kwargs) k = map_of base k"
  unfolding dict_merge_def
  by (induction kwargs arbitrary: base) (auto simp: map_of_dict_set)

lemma map_of_dict_merge_key:
  "distinct (map fst kwargs) \<Longrightarrow> map_of kwargs k = Some v \<Longrightarrow>
   map_of (dict_merge base kwargs) k = Some v"
proof (induction kwargs arbitrary: base)
  case Nil
  then show ?case by simp
next
  case (Cons kv kwargs)
  obtain k' v' where kv: "kv = (k', v')" by (cases kv)
  have step: "dict_merge base (kv # kwargs) = dict_merge (dict_set k' v' base) kwargs"
    by (simp add: dict_merge_def kv)
  show ?case
  proof (cases "k' = k")
    case True
    then have "v' = v" and "k \<notin> fst ` set kwargs" using Cons.prems kv by auto
    then show ?thesis using True step by (simp add: map_of_dict_merge_other map_of_dict_set)
  next
    case False
    then have "map_of kwargs k = Some v" and "distinct (map fst kwargs)"
      using Cons.prems kv by auto
    then show ?thesis using step Cons.IH by simp
  qed
qed

lemma events_foldl_emit_event: "events (foldl emit_event run evs) = events run @ evs"
  by (induction evs arbitrary: run) (simp_all add: emit_event_def add_event_def)

text \<open>
  C3 as stated fails: \<^verbatim>\<open>emit_event\<close> stores the event with the timestamp it arrives
  with, so two events handed over with decreasing timestamps stay in that order in the
  log; and a \<^verbatim>\<open>timestamp\<close> keyword passed to \<^verbatim>\<open>_make_event\<close> replaces the clock's
  value instead of being replaced by it.
\<close>

theorem emit_event_keeps_worker_timestamps:
  "events (emit_event (emit_event run0 ev_late) ev_early) = [ev_late, ev_early] \<and>
   timestamp_of (events (emit_event (emit_event run0 ev_late) ev_early) ! 0) = ''2024-05-01T10:00:05'' \<and>
   timestamp_of (events (emit_event (emit_event run0 ev_late) ev_early) ! 1) = ''2024-05-01T09:59:00'' \<and>
   \<not> (timestamp_of (events (emit_event (emit_event run0 ev_late) ev_early) ! 0)
        \<le> timestamp_of (events (emit_event (emit_event run0 ev_late) ev_early) ! 1)) \<and>
   timestamp_of (make_event clock_isoformat 36000 ''llm_response'' ''s1'' ''r1''
                   [(''timestamp'', JStr ''1999-12-31T23:59:59'')]) = ''1999-12-31T23:59:59''"
  by (simp add: emit_event_def add_event_def run0_def RunState_init_def ev_late_def ev_early_def
        timestamp_of_def make_event_def dict_merge_def)

text \<open>
  C3, amended. Every call of the emit path appends the event to the log exactly once
  and unchanged, its timestamp included: after the events \<open>evs\<close> the log is the old log
  followed by \<open>evs\<close>, so its timestamps are non-decreasing exactly when the timestamps
  the events arrived with are. The timestamp of an event built by \<^verbatim>\<open>_make_event\<close>
  without a \<^verbatim>\<open>timestamp\<close> keyword is the clock's time when it is built; with a
  \<^verbatim>\<open>timestamp\<close> keyword (keywords are distinct) it is the keyword's value.
\<close>

theorem emit_event_spec:
  "get_events (emit_event run ev) 0 = get_events run 0 @ [ev] \<and>
   events (foldl emit_event run evs) = events run @ evs \<and>
   sorted (map timestamp_of (events (foldl emit_event run evs)))
     = sorted (map timestamp_of (events run) @ map timestamp_of evs) \<and>
   (''timestamp'' \<notin> fst ` set kwargs \<longrightarrow>
      timestamp_of (make_event isoformat now ty sid rid kwargs) = isoformat now) \<and>
   (distinct (map fst kwargs) \<and> map_of kwargs ''timestamp'' = Some (JStr ts) \<longrightarrow>
      timestamp_of (make_event isoformat now ty sid rid kwargs) = ts)"
  by (simp add: get_events_def slice_from_def emit_event_def add_event_def events_foldl_emit_event
        timestamp_of_def make_event_def map_of_dict_merge_other map_of_dict_merge_key)

theorem emit_event_spec_witness:
  "get_events (emit_event run0 ev_start) 0 = [ev_start] \<and>
   events (foldl emit_event run0 [ev_start, ev_iter, ev_final]) = [ev_start, ev_iter, ev_final] \<and>
   sorted (map timestamp_of (events (foldl emit_event run0 [ev_start, ev_iter, ev_final]))) \<and>
   ''timestamp'' \<notin> fst ` set [(''iteration'', JInt 1), (''max_iterations'', JInt 15)] \<and>
   timestamp_of (make_event clock_isoformat 36001 ''iteration_start'' ''s1'' ''r1''
       [(''iteration'', JInt 1), (''max_iterations'', JInt 15)]) = clock_isoformat 36001 \<and>
   distinct (map fst [(''iteration'', JInt 1), (''timestamp'', JStr ''1999-12-31T23:59:59'')]) \<and>
   map_of [(''iteration'', JInt 1), (''timestamp'', JStr ''1999-12-31T23:59:59'')] ''timestamp''
     = Some (JStr ''1999-12-31T23:59:59'') \<and>
   timestamp_of (make_event clock_isoformat 36001 ''iteration_start'' ''s1'' ''r1''
       [(''iteration'', JInt 1), (''timestamp'', JStr ''1999-12-31T23:59:59'')])
     = ''1999-12-31T23:59:59''"
proof -
  note t = emit_event_spec [of run0 ev_start "[ev_start, ev_iter, ev_final]"
      "[(''iteration'', JInt 1), (''max_iterations'', JInt 15)]" clock_isoformat 36001
      "''iteration_start''" "''s1''" "''r1''"]
  have e: "events run0 = []" "get_events run0 0 = []"
    by (simp_all add: run0_def RunState_init_def get_events_def slice_from_def)
  have k: "''timestamp'' \<notin> fst ` set [(''iteration'', JInt 1), (''max_iterations'', JInt 15)]"
    by simp
  have s: "sorted (map timestamp_of [ev_start, ev_iter, ev_final])"
    by (simp add: timestamp_of_def ev_start_def ev_iter_def ev_final_def)
  have a: "get_events (emit_event run0 ev_start) 0 = [ev_start]" using t e by simp
  have b: "events (foldl emit_event run0 [ev_start, ev_iter, ev_final]) = [ev_start, ev_iter, ev_final]"
    using t e by simp
  have c: "sorted (map timestamp_of (events (foldl emit_event run0 [ev_start, ev_iter, ev_final])))"
    using t e s by simp
  have d: "timestamp_of (make_event clock_isoformat 36001 ''iteration_start'' ''s1'' ''r1''
       [(''iteration'', JInt 1), (''max_iterations'', JInt 15)]) = clock_isoformat 36001"
    using t k by blast
  have q: "distinct (map fst [(''iteration'', JInt 1), (''timestamp'', JStr ''1999-12-31T23:59:59'')])"
    "map_of [(''iteration'', JInt 1), (''timestamp'', JStr ''1999-12-31T23:59:59'')] ''timestamp''
       = Some (JStr ''1999-12-31T23:59:59'')"
    by simp_all
  have w: "timestamp_of (make_event clock_isoformat 36001 ''iteration_start'' ''s1'' ''r1''
       [(''iteration'', JInt 1), (''timestamp'', JStr ''1999-12-31T23:59:59'')])
     = ''1999-12-31T23:59:59''"
    using emit_event_spec [where kwargs = "[(''iteration'', JInt 1),
        (''timestamp'', JStr ''1999-12-31T23:59:59'')]" and ts = "''1999-12-31T23:59:59''"
        and isoformat = clock_isoformat and now = 36001 and ty = "''iteration_start''"
        and sid = "''s1''" and rid = "''r1''"] q
    by blast
  show ?thesis using a b c d k q w by blast
qed

section \<open>Missing provider credentials\<close>

lemma execute_inference_invalid:
  "\<not> validate_api_key settings (get_model_provider (model_id session)) \<Longrightarrow>
   execute_inference settings body session svc =
     (Some (ValueError (if get_model_provider (model_id session) = ''openai''
        then ''OpenAI API key not configured. Set OPENAI_API_KEY in .env''
        else ''Anthropic API key not configured. Set ANTHROPIC_API_KEY in .env'')), svc)"
  by (simp add: execute_inference_def Let_def)

text \<open>
  C2, amended. When the session's model has no valid API key, submitting a message still
  creates the run, registers and starts the background thread and answers the caller
  with the run id: no configuration error is surfaced there. The key is checked inside
  the thread; the \<^verbatim>\<open>ValueError\<close> is caught by \<^verbatim>\<open>run_thread\<close>, which appends one
  \<^verbatim>\<open>error\<close> event with code \<^verbatim>\<open>INFERENCE_ERROR\<close> to the run's log, completes the run
  with that message as its error and drops the thread from the active threads. Nothing of
  what follows the check runs.
\<close>

theorem missing_key_fails_in_background:
  assumes "sessions (service w) sid = Some session"
    and "strip msg \<noteq> []"
    and "\<not> validate_api_key settings (get_model_provider (model_id session))"
  shows "fst (submit_message w sid msg rid now) =
           SubmitMessageResponse rid ''Message submitted. Connect to SSE stream to receive progress.'' \<and>
         active_threads (snd (submit_message w sid msg rid now)) rid =
           Some \<lparr> target_session = ChatSession.session_id session, target_run = rid,
                  target_message = msg, daemon = True \<rparr> \<and>
         runs (service (snd (submit_message w sid msg rid now))) rid = Some (RunState_init rid sid msg now) \<and>
         runs (service (run_thread settings body isoformat now' tb
                 (snd (submit_message w sid msg rid now)) session rid)) rid =
           Some ((RunState_init rid sid msg now)
             \<lparr> completed := True,
               error := Some (if get_model_provider (model_id session) = ''openai''
                 then ''OpenAI API key not configured. Set OPENAI_API_KEY in .env''
                 else ''Anthropic API key not configured. Set ANTHROPIC_API_KEY in .env''),
               result := None,
               events := [error_event (isoformat now') (ChatSession.session_id session) rid
                 (if get_model_provider (model_id session) = ''openai''
                  then ''OpenAI API key not configured. Set OPENAI_API_KEY in .env''
                  else ''Anthropic API key not configured. Set ANTHROPIC_API_KEY in .env'') tb] \<rparr>) \<and>
         active_threads (run_thread settings body isoformat now' tb
                 (snd (submit_message w sid msg rid now)) session rid) rid = None"
proof -
  have s: "submit_message w sid msg rid now =
      (SubmitMessageResponse rid ''Message submitted. Connect to SSE stream to receive progress.'',
       w\<lparr>service := (service w)\<lparr>runs := (runs (service w))(rid \<mapsto> RunState_init rid sid msg now)\<rparr>,
         active_threads := (active_threads w)(rid \<mapsto>
           \<lparr> target_session = ChatSession.session_id session, target_run = rid,
             target_message = msg, daemon = True \<rparr>)\<rparr>)"
    using assms(1,2)
    by (simp add: submit_message_def get_session_def create_run_def run_inference_def Let_def)
  show ?thesis
    unfolding s
    by (simp add: run_thread_def execute_inference_invalid [OF assms(3)] on_run_def
          complete_run_def add_event_def RunState_init_def)
qed

text \<open>
  C2 as stated fails: with no key configured the caller gets the normal response, the
  thread is started, and the error event for the missing key is in the run's log.
\<close>

theorem missing_key_reaches_event_log:
  "\<not> validate_api_key settings0 (get_model_provider (model_id sess_gpt)) \<and>
   fst (submit_message world0 ''s1'' ''What is in the report?'' ''r9'' 36100) =
     SubmitMessageResponse ''r9'' ''Message submitted. Connect to SSE stream to receive progress.'' \<and>
   active_threads (snd (submit_message world0 ''s1'' ''What is in the report?'' ''r9'' 36100)) ''r9'' =
     Some \<lparr> target_session = ''s1'', target_run = ''r9'', target_message = ''What is in the report?'',
            daemon = True \<rparr> \<and>
   map_option events (runs (service (run_thread settings0 body0 clock_isoformat 36101 ''Traceback''
      (snd (submit_message world0 ''s1'' ''What is in the report?'' ''r9'' 36100)) sess_gpt ''r9'')) ''r9'') =
     Some [error_event ''2024-05-01T10:01:41'' ''s1'' ''r9''
            ''OpenAI API key not configured. Set OPENAI_API_KEY in .env'' ''Traceback'']"
  by (simp add: validate_api_key_def settings0_def get_model_provider_def AVAILABLE_MODELS_def
        sess_gpt_def ChatSession_init_def submit_message_def get_session_def world0_def strip_def
        isspace_def create_run_def run_inference_def RunState_init_def run_thread_def
        execute_inference_def on_run_def complete_run_def add_event_def Let_def
        clock_isoformat_def two_digits_def digit_def)


theorem missing_key_fails_in_background_witness:
  "sessions (service world1) ''s1'' = Some (sess1\<lparr>rlm_instance := Some handle0\<rparr>) \<and>
   strip ''And the outlook?'' \<noteq> [] \<and>
   \<not> validate_api_key settings0 (get_model_provider (model_id (sess1\<lparr>rlm_instance := Some handle0\<rparr>))) \<and>
   fst (submit_message world1 ''s1'' ''And the outlook?'' ''r2'' 36100) =
     SubmitMessageResponse ''r2'' ''Message submitted. Connect to SSE stream to receive progress.'' \<and>
   map_option events (runs (service (run_thread settings0 body0 clock_isoformat 36101 ''Traceback''
      (snd (submit_message world1 ''s1'' ''And the outlook?'' ''r2'' 36100))
      (sess1\<lparr>rlm_instance := Some handle0\<rparr>) ''r2'')) ''r2'') =
     Some [error_event (clock_isoformat 36101) ''s1'' ''r2''
            ''Anthropic API key not configured. Set ANTHROPIC_API_KEY in .env'' ''Traceback'']"
proof -
  let ?s = "sess1\<lparr>rlm_instance := Some handle0\<rparr>"
  have h1: "sessions (service world1) ''s1'' = Some ?s"
    by (simp add: world1_def svc1_def)
  have h2: "strip ''And the outlook?'' \<noteq> []"
    by (simp add: strip_def isspace_def)
  have m: "model_id ?s = ''claude-opus-4-5-20251101''" and i: "ChatSession.session_id ?s = ''s1''"
    by (simp_all add: sess1_def sess0_def ChatSession_init_def add_message_def
          add_progress_events_def Let_def)
  have p: "get_model_provider (model_id ?s) = ''anthropic''"
    by (simp add: m get_model_provider_def AVAILABLE_MODELS_def)
  have h3: "\<not> validate_api_key settings0 (get_model_provider (model_id ?s))"
    by (simp add: p validate_api_key_def settings0_def truthy_def)
  note t = missing_key_fails_in_background [OF h1 h2 h3, where rid = "''r2''" and now = 36100
      and body = body0 and isoformat = clock_isoformat and now' = 36101 and tb = "''Traceback''"]
  have a: "fst (submit_message world1 ''s1'' ''And the outlook?'' ''r2'' 36100) =
     SubmitMessageResponse ''r2'' ''Message submitted. Connect to SSE stream to receive progress.''"
    using t by blast
  have "runs (service (run_thread settings0 body0 clock_isoformat 36101 ''Traceback''
      (snd (submit_message world1 ''s1'' ''And the outlook?'' ''r2'' 36100)) ?s ''r2'')) ''r2'' =
     Some ((RunState_init ''r2'' ''s1'' ''And the outlook?'' 36100)
             \<lparr> completed := True,
               error := Some ''Anthropic API key not configured. Set ANTHROPIC_API_KEY in .env'',
               result := None,
               events := [error_event (clock_isoformat 36101) ''s1'' ''r2''
                 ''Anthropic API key not configured. Set ANTHROPIC_API_KEY in .env'' ''Traceback''] \<rparr>)"
    using t p i by simp
  then have b: "map_option events (runs (service (run_thread settings0 body0 clock_isoformat 36101 ''Traceback''
      (snd (submit_message world1 ''s1'' ''And the outlook?'' ''r2'' 36100)) ?s ''r2'')) ''r2'') =
     Some [error_event (clock_isoformat 36101) ''s1'' ''r2''
            ''Anthropic API key not configured. Set ANTHROPIC_API_KEY in .env'' ''Traceback'']"
    by simp
  show ?thesis using h1 h2 h3 a b by blast
qed

section \<open>The event stream\<close>






lemma is_heartbeat_heartbeat_event [simp]: "is_heartbeat (heartbeat_event ts sid rid)"
  by (simp add: is_heartbeat_def heartbeat_event_def)

lemma not_terminal_heartbeat_event [simp]: "\<not> is_terminal (heartbeat_event ts sid rid)"
  by (simp add: is_terminal_def heartbeat_event_def)
















end
